theory Spec2Isabelle
  imports Main
begin

section \<open>Values, exceptions and output of weather.py\<close>

text \<open>
  Python text is held as a \<^typ>\<open>string\<close> of UTF-8 bytes: an ASCII character is one
  \<^typ>\<open>char\<close>, an emoji is the four (or six) bytes the source file holds for it.
\<close>

text \<open>
  The exceptions the program can end with. \<open>SystemExit\<close> is what \<open>sys.exit(msg)\<close>
  raises: the interpreter prints \<open>msg\<close> on the error stream and exits with status 1.
  \<open>UsageExit\<close> is the exit of argparse after a usage error (status 2), and
  \<open>HelpExit\<close> its exit after \<open>-h\<close>: the help text, printed on standard output, and
  status 0. Every other constructor is an exception of the Python library; when no
  handler of the program catches it, the interpreter prints a traceback and exits with
  status 1. \<open>HTTPError\<close> carries the HTTP status; \<open>URLError\<close> is a transport failure
  (DNS, refused connection, timeout) with its reason; \<open>ConfigParserError\<close> is an error
  of the module configparser (MissingSectionHeaderError, InterpolationSyntaxError and
  the like) with the name of its class.
\<close>

datatype exn =
    SystemExit string
  | UsageExit
  | HelpExit string
  | KeyError string
  | TypeError
  | AttributeError string
  | HTTPError nat
  | URLError string
  | JSONDecodeError
  | UnicodeDecodeError
  | ConfigParserError string

text \<open>
  A decoded JSON document, as \<open>json.loads\<close> returns it: \<open>None\<close>, a bool, an int, a
  str, a list or a dict (an association list holding each key once). JSON numbers with a
  fraction or an exponent become Python floats and are left out of this model.
\<close>

datatype json =
    JNull
  | JBool bool
  | JInt int
  | JStr string
  | JArr "json list"
  | JObj "(string \<times> json) list"

text \<open>
  Modelled from the spec: the module \<open>style\<close> (imported on line 4, absent from the
  sources). Its colour constants are symbolic style tokens, and \<open>style.change_color\<close>
  puts the control code of a token on standard output.
\<close>

datatype style_token = RED | CYAN | BLUE | WHITE | YELLOW | RESET | REVERSE

text \<open>What reaches standard output: control codes and printed text, in order.\<close>

datatype out_item = Style style_token | Text string

section \<open>The condition code tables (lines 13 to 19)\<close>

text \<open>
  The right operand of \<open>in\<close> in the classifier is one of the module constants: six of
  them are lists of ints, \<open>SUNNY\<close> is a bare int.
\<close>

datatype code_table = PyInt int | PyList "int list"

definition SUNNY :: code_table where
  "SUNNY = PyInt 1000"

definition CLOUDY :: code_table where
  "CLOUDY = PyList [1003, 1006, 1009]"

definition RAIN :: code_table where
  "RAIN = PyList [1063, 1180, 1183, 1186, 1189, 1192, 1195, 1198, 1201, 1240, 1243, 1246, 1249]"

definition ATMOSPHERE :: code_table where
  "ATMOSPHERE = PyList [1030, 1135, 1147]"

definition SNOW :: code_table where
  "SNOW = PyList [1066, 1069, 1114, 1204, 1207, 1210, 1213, 1216, 1219, 1222, 1225, 1237,
                  1252, 1255, 1258, 1261, 1264]"

definition DRIZZLE :: code_table where
  "DRIZZLE = PyList [1072, 1150, 1153, 1168, 1171]"

definition THUNDERSTORM :: code_table where
  "THUNDERSTORM = PyList [1087, 1273, 1276, 1279, 1282]"

text \<open>
  \<open>v == n\<close> for a decoded JSON value and an int: an int compares by value, a bool
  counts as 0 or 1, anything else is unequal.
\<close>

fun py_eq_int :: "json \<Rightarrow> int \<Rightarrow> bool" where
  "py_eq_int (JInt m) n = (m = n)"
| "py_eq_int (JBool b) n = ((if b then 1 else 0) = n)"
| "py_eq_int _ n = False"

text \<open>
  \<open>v in table\<close>: on a list, whether some element equals \<open>v\<close>; on an int, Python
  raises TypeError (argument of type 'int' is not iterable), whatever \<open>v\<close> is.
\<close>

fun py_in :: "json \<Rightarrow> code_table \<Rightarrow> exn + bool" where
  "py_in v (PyList xs) = Inr (list_ex (py_eq_int v) xs)"
| "py_in v (PyInt n) = Inl TypeError"

section \<open>The glyphs (lines 116 to 130)\<close>

definition glyph_collision :: string where
  "glyph_collision = [CHR 0xF0, CHR 0x9F, CHR 0x92, CHR 0xA5]"

definition glyph_droplet :: string where
  "glyph_droplet = [CHR 0xF0, CHR 0x9F, CHR 0x92, CHR 0xA7]"

definition glyph_sweat_droplets :: string where
  "glyph_sweat_droplets = [CHR 0xF0, CHR 0x9F, CHR 0x92, CHR 0xA6]"

definition glyph_snowman :: string where
  "glyph_snowman = [CHR 0xE2, CHR 0x9B, CHR 0x84, CHR 0xEF, CHR 0xB8, CHR 0x8F]"

definition glyph_cyclone :: string where
  "glyph_cyclone = [CHR 0xF0, CHR 0x9F, CHR 0x8C, CHR 0x80]"

definition glyph_high_brightness :: string where
  "glyph_high_brightness = [CHR 0xF0, CHR 0x9F, CHR 0x94, CHR 0x86]"

definition glyph_dash :: string where
  "glyph_dash = [CHR 0xF0, CHR 0x9F, CHR 0x92, CHR 0xA8]"

definition glyph_rainbow :: string where
  "glyph_rainbow = [CHR 0xF0, CHR 0x9F, CHR 0x8C, CHR 0x88]"

section \<open>The classifier (lines 114 to 131)\<close>

text \<open>
  One arm of the \<open>if\<close>/\<open>elif\<close> chain: the membership test is evaluated first; an
  exception it raises leaves the function, otherwise the arm or the rest of the chain runs.
\<close>

definition elif_in ::
  "json \<Rightarrow> code_table \<Rightarrow> exn + (string \<times> style_token) \<Rightarrow> exn + (string \<times> style_token)
     \<Rightarrow> exn + (string \<times> style_token)" where
  "elif_in v table arm rest =
     (case py_in v table of
        Inl e \<Rightarrow> Inl e
      | Inr b \<Rightarrow> if b then arm else rest)"

definition select_weather_display_params :: "json \<Rightarrow> exn + (string \<times> style_token)" where
  "select_weather_display_params weather_id =
     elif_in weather_id THUNDERSTORM (Inr (glyph_collision, RED))
    (elif_in weather_id DRIZZLE (Inr (glyph_droplet, CYAN))
    (elif_in weather_id RAIN (Inr (glyph_sweat_droplets, BLUE))
    (elif_in weather_id SNOW (Inr (glyph_snowman, WHITE))
    (elif_in weather_id ATMOSPHERE (Inr (glyph_cyclone, BLUE))
    (elif_in weather_id SUNNY (Inr (glyph_high_brightness, YELLOW))
    (elif_in weather_id CLOUDY (Inr (glyph_dash, WHITE))
    (Inr (glyph_rainbow, RESET))))))))"

section \<open>Text helpers of the Python library\<close>

text \<open>\<open>str(n)\<close> for an int: decimal digits, with a minus sign when negative.\<close>

definition digit_char :: "nat \<Rightarrow> char" where
  "digit_char d = char_of (of_char (CHR ''0'') + d)"

fun str_nat :: "nat \<Rightarrow> string" where
  "str_nat n = (if n < 10 then [digit_char n] else str_nat (n div 10) @ [digit_char (n mod 10)])"

definition str_int :: "int \<Rightarrow> string" where
  "str_int i = (if i < 0 then CHR ''-'' # str_nat (nat (- i)) else str_nat (nat i))"

text \<open>\<open>sep.join(xs)\<close>: the items in order, \<open>sep\<close> between each two neighbours.\<close>

fun str_join :: "string \<Rightarrow> string list \<Rightarrow> string" where
  "str_join sep [] = []"
| "str_join sep [x] = x"
| "str_join sep (x # y # ys) = x @ sep @ str_join sep (y # ys)"

text \<open>
  \<open>urllib.parse.quote_plus(s)\<close> with its default arguments, on the UTF-8 bytes of
  \<open>s\<close>: a space becomes \<open>+\<close>, the bytes of the library's always-safe set (ASCII
  letters, digits and \<open>_.-~\<close>) stay, every other byte becomes \<open>%\<close> and two upper-case
  hexadecimal digits.
\<close>

definition hex_digit :: "nat \<Rightarrow> char" where
  "hex_digit d = ''0123456789ABCDEF'' ! (d mod 16)"

definition always_safe :: "char \<Rightarrow> bool" where
  "always_safe c =
     (c \<in> set ''ABCDEFGHIJKLMNOPQRSTUVWXYZabcdefghijklmnopqrstuvwxyz0123456789_.-~'')"

definition quote_byte :: "char \<Rightarrow> string" where
  "quote_byte c =
     (if c = CHR '' '' then ''+''
      else if always_safe c then [c]
      else [CHR ''%'', hex_digit (of_char c div 16), hex_digit (of_char c mod 16)])"

definition quote_plus :: "string \<Rightarrow> string" where
  "quote_plus s = concat (map quote_byte s)"

text \<open>
  \<open>s.capitalize()\<close>: first character upper case, the rest lower case. Only ASCII
  letters change here; bytes of multi-byte characters are kept (Python would also change
  the case of non-ASCII letters).
\<close>

definition ascii_upper :: "char \<Rightarrow> char" where
  "ascii_upper c =
     (let n = (of_char c :: nat)
      in if of_char (CHR ''a'') \<le> n \<and> n \<le> of_char (CHR ''z'') then char_of (n - 32) else c)"

definition ascii_lower :: "char \<Rightarrow> char" where
  "ascii_lower c =
     (let n = (of_char c :: nat)
      in if of_char (CHR ''A'') \<le> n \<and> n \<le> of_char (CHR ''Z'') then char_of (n + 32) else c)"

fun capitalize :: "string \<Rightarrow> string" where
  "capitalize [] = []"
| "capitalize (c # cs) = ascii_upper c # map ascii_lower cs"

text \<open>
  The format specification \<open>^width\<close> on a str: text at least \<open>width\<close> long is kept,
  shorter text gets the missing spaces, half of them (rounded down) on the left. The
  length is counted in bytes, which is Python's count for ASCII text.
\<close>

definition format_center :: "nat \<Rightarrow> string \<Rightarrow> string" where
  "format_center width s =
     (let pad = width - length s; left = pad div 2
      in replicate left CHR '' '' @ s @ replicate (pad - left) CHR '' '')"

section \<open>Configuration reader (lines 22 to 30)\<close>

text \<open>
  The options of one section, as the parser holds them after reading: each option name
  in the lower case the parser stores it in, with what \<open>parser.get\<close> yields for it,
  the value after interpolation or the error that interpolation raises (a value with a
  stray \<open>%\<close> raises InterpolationSyntaxError).
\<close>

type_synonym ini_options = "(string \<times> (exn + string)) list"

text \<open>
  What \<open>config.read("secrets.ini")\<close> meets. \<open>NoFile\<close>: no file that can be opened;
  \<open>read\<close> skips it without raising and the parser stays empty. \<open>BadFile\<close>: a file on
  which \<open>read\<close> raises (for one, MissingSectionHeaderError). \<open>IniFile\<close>: a file that
  parses, given by the options of its \<open>[DEFAULT]\<close> section and by its other sections
  under their names.
\<close>

datatype config_file =
    NoFile
  | BadFile exn
  | IniFile ini_options "(string \<times> ini_options) list"

definition config_read :: "config_file \<Rightarrow> exn + (ini_options \<times> (string \<times> ini_options) list)" where
  "config_read file =
     (case file of
        NoFile \<Rightarrow> Inr ([], [])
      | BadFile e \<Rightarrow> Inl e
      | IniFile defaults sections \<Rightarrow> Inr (defaults, sections))"

text \<open>
  \<open>config["weatherapi"]["api_key"]\<close>. The first subscript raises KeyError when the
  parser has no section of that name (the options of \<open>[DEFAULT]\<close> alone do not make
  one). The second looks the option up in the section and then in \<open>[DEFAULT]\<close>, raises
  KeyError when neither has it, and otherwise yields what \<open>parser.get\<close> yields.
\<close>

definition get_api_key :: "config_file \<Rightarrow> exn + string" where
  "get_api_key secrets_ini =
     (case config_read secrets_ini of
        Inl e \<Rightarrow> Inl e
      | Inr (defaults, sections) \<Rightarrow>
          (case map_of sections ''weatherapi'' of
             None \<Rightarrow> Inl (KeyError ''weatherapi'')
           | Some section \<Rightarrow>
               (case map_of (section @ defaults) ''api_key'' of
                  None \<Rightarrow> Inl (KeyError ''api_key'')
                | Some got \<Rightarrow> got)))"

section \<open>Command line (lines 33 to 47)\<close>

text \<open>
  A token that starts with \<open>-\<close> is one argparse may read as an option.
\<close>

definition option_like :: "string \<Rightarrow> bool" where
  "option_like token = (case token of [] \<Rightarrow> False | c # cs \<Rightarrow> c = CHR ''-'')"

text \<open>
  The parser has one positional argument \<open>city\<close> with \<open>nargs="+"\<close> and the option
  \<open>-h\<close> that argparse adds. When no token of the argument vector starts with \<open>-\<close>,
  every token is positional: with no token argparse prints the usage on the error stream
  and exits with status 2, otherwise \<open>city\<close> is the list of tokens. What argparse does
  with a vector that holds a token starting with \<open>-\<close> (help for \<open>-h\<close>, a usage
  error for an unknown option, \<open>--\<close> dropped, a negative number kept as a city token)
  is the library's, taken as the parameter \<open>parse_options\<close>.
\<close>

definition read_user_cli_args ::
  "(string list \<Rightarrow> exn + string list) \<Rightarrow> string list \<Rightarrow> exn + string list" where
  "read_user_cli_args parse_options argv =
     (if list_ex option_like argv then parse_options argv
      else if argv = [] then Inl UsageExit
      else Inr argv)"

section \<open>Query builder (lines 50 to 65)\<close>

definition BASE_WEATHER_API_URL :: string where
  "BASE_WEATHER_API_URL = ''http://api.weatherapi.com/v1/current.json''"

text \<open>
  The encoded city name is computed on line 59 and bound to a local that the f-string
  of lines 60 to 63 does not read: the URL is built from \<open>city_name\<close>.
\<close>

definition build_weather_query :: "config_file \<Rightarrow> string list \<Rightarrow> exn + string" where
  "build_weather_query secrets_ini city_input =
     (case get_api_key secrets_ini of
        Inl e \<Rightarrow> Inl e
      | Inr api_key \<Rightarrow>
          (let city_name = str_join '' '' city_input;
               url_encoded_city_name = quote_plus city_name;
               url = BASE_WEATHER_API_URL @ ''?key='' @ api_key @ ''&q='' @ city_name
           in Inr url))"

section \<open>HTTP client (lines 68 to 83)\<close>

text \<open>
  The expression \<open>error.http_error.code\<close> of lines 72, 74 and 77. The handler binds
  no name to the caught exception, and \<open>error\<close> is the module \<open>urllib.error\<close> of line
  6, whose public names are \<open>URLError\<close>, \<open>HTTPError\<close> and \<open>ContentTooShortError\<close>:
  looking up \<open>http_error\<close> in it raises AttributeError.
\<close>

definition error_http_error_code :: "exn + nat" where
  "error_http_error_code = Inl (AttributeError ''http_error'')"

text \<open>
  \<open>urlopen\<close> and \<open>json_loads\<close> are the two library calls, given by what they return
  or raise: \<open>urlopen\<close> returns the body that \<open>response.read()\<close> yields for a 2xx
  answer and raises HTTPError for an error status or URLError for a transport failure;
  \<open>json_loads\<close> raises JSONDecodeError for text that is not JSON and
  UnicodeDecodeError for bytes that are not text. The handler of line 71 catches
  HTTPError only, the one of line 82 JSONDecodeError only.
\<close>

definition get_weather_data ::
  "(string \<Rightarrow> exn + string) \<Rightarrow> (string \<Rightarrow> exn + json) \<Rightarrow> string \<Rightarrow> exn + json" where
  "get_weather_data urlopen json_loads query_url =
     (case urlopen query_url of
        Inl (HTTPError status) \<Rightarrow>
          (case error_http_error_code of
             Inl e \<Rightarrow> Inl e
           | Inr code \<Rightarrow>
               if code = 401 then Inl (SystemExit ''Access denied. Check your API key.'')
               else if code = 404 then Inl (SystemExit ''Can't find weather data for this city.'')
               else Inl (SystemExit (''Something went wrong... ('' @ str_nat code @ '')'')))
      | Inl e \<Rightarrow> Inl e
      | Inr data \<Rightarrow>
          (case json_loads data of
             Inl JSONDecodeError \<Rightarrow> Inl (SystemExit ''Couldn't read the server response.'')
           | Inl e \<Rightarrow> Inl e
           | Inr weather_data \<Rightarrow> Inr weather_data))"

section \<open>Display formatter (lines 86 to 111)\<close>

text \<open>
  \<open>v[k]\<close> with a str key: a dict gives the value or raises KeyError; every other
  value raises TypeError (not subscriptable, or indices must be integers).
\<close>

definition py_getitem :: "json \<Rightarrow> string \<Rightarrow> exn + json" where
  "py_getitem v k =
     (case v of
        JObj items \<Rightarrow> (case map_of items k of None \<Rightarrow> Inl (KeyError k) | Some w \<Rightarrow> Inr w)
      | _ \<Rightarrow> Inl TypeError)"

text \<open>A chain of subscripts \<open>v[k1][k2]...\<close>, left to right.\<close>

fun py_getpath :: "json \<Rightarrow> string list \<Rightarrow> exn + json" where
  "py_getpath v [] = Inr v"
| "py_getpath v (k # ks) =
     (case py_getitem v k of Inl e \<Rightarrow> Inl e | Inr w \<Rightarrow> py_getpath w ks)"

text \<open>
  What an f-string puts for \<open>{v}\<close>. The text of a list or a dict is Python's \<open>repr\<close>,
  taken as the parameter \<open>py_repr\<close>.
\<close>

definition py_str :: "(json \<Rightarrow> string) \<Rightarrow> json \<Rightarrow> string" where
  "py_str py_repr v =
     (case v of
        JNull \<Rightarrow> ''None''
      | JBool b \<Rightarrow> (if b then ''True'' else ''False'')
      | JInt i \<Rightarrow> str_int i
      | JStr s \<Rightarrow> s
      | _ \<Rightarrow> py_repr v)"

text \<open>\<open>condition.capitalize()\<close>: a method of str; any other value has no such attribute.\<close>

definition py_capitalize :: "json \<Rightarrow> exn + string" where
  "py_capitalize v =
     (case v of JStr s \<Rightarrow> Inr (capitalize s) | _ \<Rightarrow> Inl (AttributeError ''capitalize''))"

definition degree_sign :: string where
  "degree_sign = [CHR 0xC2, CHR 0xB0]"

text \<open>
  The five reads of lines 91 to 96, in order; the first one that raises ends the function.
\<close>

definition read_fields :: "json \<Rightarrow> exn + (json \<times> json \<times> json \<times> json \<times> json)" where
  "read_fields weather_data =
     (case py_getpath weather_data [''location'', ''name''] of Inl e \<Rightarrow> Inl e | Inr city \<Rightarrow>
      case py_getpath weather_data [''location'', ''name''] of Inl e \<Rightarrow> Inl e | Inr region \<Rightarrow>
      case py_getpath weather_data [''current'', ''condition'', ''text''] of Inl e \<Rightarrow> Inl e | Inr condition \<Rightarrow>
      case py_getpath weather_data [''current'', ''temp_c''] of Inl e \<Rightarrow> Inl e | Inr temperature \<Rightarrow>
      case py_getpath weather_data [''current'', ''condition'', ''code''] of Inl e \<Rightarrow> Inl e | Inr weather_id \<Rightarrow>
      Inr (city, region, condition, temperature, weather_id))"

text \<open>
  The function returns what it has put on standard output and, when it ended by an
  exception, that exception. \<open>padding\<close> is \<open>style.PADDING\<close>.
\<close>

definition display_weather_info ::
  "nat \<Rightarrow> (json \<Rightarrow> string) \<Rightarrow> json \<Rightarrow> out_item list \<times> exn option" where
  "display_weather_info padding py_repr weather_data =
     (case read_fields weather_data of
        Inl e \<Rightarrow> ([], Some e)
      | Inr (city, region, condition, temperature, weather_id) \<Rightarrow>
          (let out1 = [Style REVERSE,
                       Text (py_str py_repr city @ '' ('' @ py_str py_repr region @ '')''),
                       Style RESET]
           in case select_weather_display_params weather_id of
                Inl e \<Rightarrow> (out1, Some e)
              | Inr (weather_symbol, color) \<Rightarrow>
                  (let out2 = out1 @ [Style color, Text ([CHR 0x09] @ weather_symbol @ '' '')]
                   in case py_capitalize condition of
                        Inl e \<Rightarrow> (out2, Some e)
                      | Inr capitalized \<Rightarrow>
                          (out2 @ [Text (format_center padding capitalized @ '' ''),
                                   Style RESET,
                                   Text (''('' @ py_str py_repr temperature @ degree_sign
                                           @ ''C'' @ '')'' @ [CHR 0x0A])],
                           None))))"

section \<open>The program (lines 134 to 138)\<close>

text \<open>Everything the run takes from outside the source file.\<close>

record world =
  argv :: "string list"
  parse_options :: "string list \<Rightarrow> exn + string list"
  secrets_ini :: config_file
  urlopen :: "string \<Rightarrow> exn + string"
  json_loads :: "string \<Rightarrow> exn + json"
  PADDING :: nat
  py_repr :: "json \<Rightarrow> string"

text \<open>
  What a run leaves behind: standard output, the URLs handed to \<open>urlopen\<close>, and the
  exception that ended it (\<open>None\<close> when the last statement was reached).
\<close>

record process =
  stdout :: "out_item list"
  requests :: "string list"
  ending :: "exn option"

text \<open>What argparse has printed on standard output when it ends the run.\<close>

definition argparse_output :: "exn \<Rightarrow> out_item list" where
  "argparse_output e = (case e of HelpExit help \<Rightarrow> [Text help] | _ \<Rightarrow> [])"

definition main :: "world \<Rightarrow> process" where
  "main w =
     (case read_user_cli_args (parse_options w) (argv w) of
        Inl e \<Rightarrow> \<lparr>stdout = argparse_output e, requests = [], ending = Some e\<rparr>
      | Inr city \<Rightarrow>
          (case build_weather_query (secrets_ini w) city of
             Inl e \<Rightarrow> \<lparr>stdout = [], requests = [], ending = Some e\<rparr>
           | Inr query_url \<Rightarrow>
               (case get_weather_data (urlopen w) (json_loads w) query_url of
                  Inl e \<Rightarrow> \<lparr>stdout = [], requests = [query_url], ending = Some e\<rparr>
                | Inr weather_data \<Rightarrow>
                    (case display_weather_info (PADDING w) (py_repr w) weather_data of
                       (out, e) \<Rightarrow> \<lparr>stdout = out, requests = [query_url], ending = e\<rparr>))))"

text \<open>The exit status of the interpreter.\<close>

definition exit_status :: "exn option \<Rightarrow> nat" where
  "exit_status e =
     (case e of
        None \<Rightarrow> 0
      | Some UsageExit \<Rightarrow> 2
      | Some (HelpExit help) \<Rightarrow> 0
      | Some _ \<Rightarrow> 1)"

text \<open>
  A run ends cleanly, with a message meant for the user, when it ends by
  \<open>sys.exit(msg)\<close> or by the usage error or the help of argparse; an exception that
  nothing catches ends it with a traceback instead.
\<close>

definition clean_exit :: "exn \<Rightarrow> bool" where
  "clean_exit e =
     (case e of
        SystemExit msg \<Rightarrow> True
      | UsageExit \<Rightarrow> True
      | HelpExit help \<Rightarrow> True
      | _ \<Rightarrow> False)"

definition ends_cleanly :: "exn + json \<Rightarrow> bool" where
  "ends_cleanly r = (case r of Inl e \<Rightarrow> clean_exit e | Inr v \<Rightarrow> False)"

definition clean_termination :: "exn option \<Rightarrow> bool" where
  "clean_termination e = (case e of None \<Rightarrow> False | Some x \<Rightarrow> clean_exit x)"

section \<open>The specification's wording of the city string\<close>


section \<open>Sample inputs\<close>

definition secrets_with_key :: config_file where
  "secrets_with_key = IniFile [] [(''weatherapi'', [(''api_key'', Inr ''abc123'')])]"

definition secrets_without_key :: config_file where
  "secrets_without_key =
     IniFile [(''timeout'', Inr ''5'')] [(''weatherapi'', [(''api_kee'', Inr ''abc123'')])]"

text \<open>
  The sample command lines hold no token starting with \<open>-\<close>, so this stand-in for
  argparse's reading of options is never consulted.
\<close>

definition options_not_consulted :: "string list \<Rightarrow> exn + string list" where
  "options_not_consulted args = Inl UsageExit"

definition paris_response :: json where
  "paris_response =
     JObj [(''location'', JObj [(''name'', JStr ''Paris'')]),
           (''current'', JObj [(''condition'', JObj [(''text'', JStr ''Clear''),
                                                     (''code'', JInt 1000)]),
                               (''temp_c'', JInt 22)])]"

definition urlopen_ok :: "string \<Rightarrow> exn + string" where
  "urlopen_ok url = Inr ''<html>''"

definition urlopen_401 :: "string \<Rightarrow> exn + string" where
  "urlopen_401 url = Inl (HTTPError 401)"

definition urlopen_404 :: "string \<Rightarrow> exn + string" where
  "urlopen_404 url = Inl (HTTPError 404)"

definition urlopen_500 :: "string \<Rightarrow> exn + string" where
  "urlopen_500 url = Inl (HTTPError 500)"

definition urlopen_timeout :: "string \<Rightarrow> exn + string" where
  "urlopen_timeout url = Inl (URLError ''timed out'')"

definition loads_paris :: "string \<Rightarrow> exn + json" where
  "loads_paris data = Inr paris_response"

definition loads_not_json :: "string \<Rightarrow> exn + json" where
  "loads_not_json data = Inl JSONDecodeError"

text \<open>
  A page in Latin-1, as a captive portal may answer with status 200: the byte E9 is no
  UTF-8 text, and \<open>json.loads\<close> raises UnicodeDecodeError on it.
\<close>

definition latin1_page :: string where
  "latin1_page = ''<html>caf'' @ [CHR 0xE9] @ ''</html>''"

definition urlopen_latin1_page :: "string \<Rightarrow> exn + string" where
  "urlopen_latin1_page url = Inr latin1_page"

definition loads_undecodable :: "string \<Rightarrow> exn + json" where
  "loads_undecodable data = Inl UnicodeDecodeError"

definition repr_unused :: "json \<Rightarrow> string" where
  "repr_unused v = []"

definition world_paris :: world where
  "world_paris =
     \<lparr>argv = [''Paris''], parse_options = options_not_consulted,
      secrets_ini = secrets_with_key, urlopen = urlopen_ok,
      json_loads = loads_paris, PADDING = 20, py_repr = repr_unused\<rparr>"

definition world_not_json :: world where
  "world_not_json =
     \<lparr>argv = [''Paris''], parse_options = options_not_consulted,
      secrets_ini = secrets_with_key, urlopen = urlopen_ok,
      json_loads = loads_not_json, PADDING = 20, py_repr = repr_unused\<rparr>"

definition world_undecodable :: world where
  "world_undecodable =
     \<lparr>argv = [''Paris''], parse_options = options_not_consulted,
      secrets_ini = secrets_with_key, urlopen = urlopen_latin1_page,
      json_loads = loads_undecodable, PADDING = 20, py_repr = repr_unused\<rparr>"

definition world_no_file :: world where
  "world_no_file =
     \<lparr>argv = [''Paris''], parse_options = options_not_consulted,
      secrets_ini = NoFile, urlopen = urlopen_ok,
      json_loads = loads_paris, PADDING = 20, py_repr = repr_unused\<rparr>"

definition world_no_key :: world where
  "world_no_key =
     \<lparr>argv = [''Paris''], parse_options = options_not_consulted,
      secrets_ini = secrets_without_key, urlopen = urlopen_ok,
      json_loads = loads_paris, PADDING = 20, py_repr = repr_unused\<rparr>"


section \<open>The classifier on the code tables\<close>

text \<open>
  The five tables tested before \<open>SUNNY\<close> are classified as the table of glyphs and
  colours says.
\<close>

lemma select_first_five_tables:
  "code \<in> {1087, 1273, 1276, 1279, 1282} \<Longrightarrow>
     select_weather_display_params (JInt code) = Inr (glyph_collision, RED)"
  "code \<in> {1072, 1150, 1153, 1168, 1171} \<Longrightarrow>
     select_weather_display_params (JInt code) = Inr (glyph_droplet, CYAN)"
  "code \<in> {1063, 1180, 1183, 1186, 1189, 1192, 1195, 1198, 1201, 1240, 1243, 1246, 1249} \<Longrightarrow>
     select_weather_display_params (JInt code) = Inr (glyph_sweat_droplets, BLUE)"
  "code \<in> {1066, 1069, 1114, 1204, 1207, 1210, 1213, 1216, 1219, 1222, 1225, 1237,
            1252, 1255, 1258, 1261, 1264} \<Longrightarrow>
     select_weather_display_params (JInt code) = Inr (glyph_snowman, WHITE)"
  "code \<in> {1030, 1135, 1147} \<Longrightarrow>
     select_weather_display_params (JInt code) = Inr (glyph_cyclone, BLUE)"
  by (elim insertE emptyE;
      simp add: select_weather_display_params_def elif_in_def THUNDERSTORM_def DRIZZLE_def
        RAIN_def SNOW_def ATMOSPHERE_def)+

text \<open>
  Every other code reaches the test \<open>weather_id in SUNNY\<close>, which raises: the arms for
  Sunny and Cloudy and the fallback arm are never taken.
\<close>

lemma select_raises_elsewhere:
  "code \<notin> {1087, 1273, 1276, 1279, 1282} \<union> {1072, 1150, 1153, 1168, 1171}
        \<union> {1063, 1180, 1183, 1186, 1189, 1192, 1195, 1198, 1201, 1240, 1243, 1246, 1249}
        \<union> {1066, 1069, 1114, 1204, 1207, 1210, 1213, 1216, 1219, 1222, 1225, 1237,
            1252, 1255, 1258, 1261, 1264}
        \<union> {1030, 1135, 1147} \<Longrightarrow>
     select_weather_display_params (JInt code) = Inl TypeError"
  by (simp add: select_weather_display_params_def elif_in_def THUNDERSTORM_def DRIZZLE_def
      RAIN_def SNOW_def ATMOSPHERE_def SUNNY_def)

text \<open>
  C1. The claim gives the pair of the glyph table for every code of the Thunderstorm,
  Drizzle, Rain, Snow, Atmosphere and Cloudy sets and for the Sunny value 1000. On the
  code, the Sunny value and the three Cloudy codes return no pair: the test against the
  int \<open>SUNNY\<close> raises TypeError.
\<close>

theorem C1_sunny_and_cloudy_raise:
  "select_weather_display_params (JInt 1000) = Inl TypeError
   \<and> select_weather_display_params (JInt 1003) = Inl TypeError
   \<and> select_weather_display_params (JInt 1006) = Inl TypeError
   \<and> select_weather_display_params (JInt 1009) = Inl TypeError"
  by (simp add: select_weather_display_params_def elif_in_def THUNDERSTORM_def DRIZZLE_def
      RAIN_def SNOW_def ATMOSPHERE_def SUNNY_def)

text \<open>
  C2. The claim says the classifier yields a pair for every integer and never raises. On
  the code, the code 1000 yields no pair at all.
\<close>

theorem C2_no_pair_for_1000:
  "\<forall>glyph color. select_weather_display_params (JInt 1000) \<noteq> Inr (glyph, color)"
  by (simp add: select_weather_display_params_def elif_in_def THUNDERSTORM_def DRIZZLE_def
      RAIN_def SNOW_def ATMOSPHERE_def SUNNY_def)

text \<open>
  C3. The claim gives the fallback pair (rainbow, reset) for every code outside the
  listed sets. On the code, the unlisted code 1300 raises TypeError before the fallback
  arm is reached.
\<close>

theorem C3_unknown_code_no_fallback:
  "select_weather_display_params (JInt 1300) = Inl TypeError
   \<and> select_weather_display_params (JInt 1300) \<noteq> Inr (glyph_rainbow, RESET)"
  by (simp add: select_weather_display_params_def elif_in_def THUNDERSTORM_def DRIZZLE_def
      RAIN_def SNOW_def ATMOSPHERE_def SUNNY_def)

section \<open>The query URL\<close>

text \<open>
  C4. The claim says the city text is percent-encoded in the URL. On the code, the
  tokens new, york give a URL that holds the city with its space as it is, not the
  encoded text that line 59 computes.
\<close>

theorem C4_city_not_encoded:
  "build_weather_query secrets_with_key [''new'', ''york'']
     = Inr ''http://api.weatherapi.com/v1/current.json?key=abc123&q=new york''
   \<and> quote_plus (str_join '' '' [''new'', ''york'']) = ''new+york''
   \<and> build_weather_query secrets_with_key [''new'', ''york'']
     \<noteq> Inr (BASE_WEATHER_API_URL @ ''?key=abc123&q=''
              @ quote_plus (str_join '' '' [''new'', ''york'']))"
  by (simp add: build_weather_query_def get_api_key_def config_read_def secrets_with_key_def
      BASE_WEATHER_API_URL_def quote_plus_def quote_byte_def always_safe_def)





section \<open>The HTTP client\<close>

text \<open>
  C5. The claim gives, for an HTTP error status, the message chosen by the status (401,
  404, any other) and a clean exit. On the code, the handler raises AttributeError while
  it looks the status up, for 401, 404 and 500 alike, and no message of the program is
  produced.
\<close>

theorem C5_http_error_status_attribute_error:
  "get_weather_data urlopen_401 loads_not_json ''http://h/?q=x''
     = Inl (AttributeError ''http_error'')
   \<and> get_weather_data urlopen_404 loads_not_json ''http://h/?q=x''
     = Inl (AttributeError ''http_error'')
   \<and> get_weather_data urlopen_500 loads_not_json ''http://h/?q=x''
     = Inl (AttributeError ''http_error'')
   \<and> \<not> ends_cleanly (get_weather_data urlopen_401 loads_not_json ''http://h/?q=x'')"
  by (simp add: get_weather_data_def urlopen_401_def urlopen_404_def urlopen_500_def
      error_http_error_code_def ends_cleanly_def clean_exit_def)

text \<open>
  C6, as stated: every transport failure ends cleanly with a message. It fails for a
  timeout: the URLError leaves the function uncaught.
\<close>

theorem C6_timeout_counterexample:
  "\<not> ends_cleanly (get_weather_data urlopen_timeout loads_not_json ''http://h/?q=x'')"
  by (simp add: get_weather_data_def urlopen_timeout_def ends_cleanly_def clean_exit_def)

text \<open>
  C6, amended. For every transport failure of the HTTP call (\<open>urlopen\<close> raising
  URLError), the function has no handler: the URLError leaves it uncaught, whatever the
  reason, so no data is returned and the run does not end by a message of the program.
\<close>

theorem C6_transport_failure_uncaught:
  assumes "opener url = Inl (URLError reason)"
  shows "get_weather_data opener loads url = Inl (URLError reason)
         \<and> \<not> ends_cleanly (get_weather_data opener loads url)"
  using assms by (simp add: get_weather_data_def ends_cleanly_def clean_exit_def)

text \<open>C6, amended, at a timeout.\<close>

theorem C6_transport_failure_uncaught_witness:
  "urlopen_timeout ''http://h/?q=x'' = Inl (URLError ''timed out'')
   \<and> get_weather_data urlopen_timeout loads_paris ''http://h/?q=x''
       = Inl (URLError ''timed out'')"
proof -
  have h: "urlopen_timeout ''http://h/?q=x'' = Inl (URLError ''timed out'')"
    by (simp add: urlopen_timeout_def)
  show ?thesis
    using h C6_transport_failure_uncaught
      [where opener = urlopen_timeout and url = "''http://h/?q=x''"
         and reason = "''timed out''" and loads = loads_paris]
    by simp
qed

text \<open>
  C7, as stated: a 2xx body that fails to parse as JSON ends the run by the message that
  the server response could not be read. It fails for a page in Latin-1: \<open>json.loads\<close>
  raises UnicodeDecodeError, which the handler of line 82 does not catch, and the run ends
  by that exception and not by the message.
\<close>

theorem C7_undecodable_body_counterexample:
  "get_weather_data urlopen_latin1_page loads_undecodable
       ''http://api.weatherapi.com/v1/current.json?key=abc123&q=Paris''
     = Inl UnicodeDecodeError
   \<and> ending (main world_undecodable) = Some UnicodeDecodeError
   \<and> ending (main world_undecodable)
       \<noteq> Some (SystemExit ''Couldn't read the server response.'')
   \<and> \<not> clean_termination (ending (main world_undecodable))"
  by (simp add: main_def world_undecodable_def read_user_cli_args_def option_like_def
      build_weather_query_def get_api_key_def config_read_def secrets_with_key_def
      BASE_WEATHER_API_URL_def get_weather_data_def urlopen_latin1_page_def
      loads_undecodable_def clean_termination_def clean_exit_def)

text \<open>
  C7, amended. When the body of a 2xx answer is text that does not parse as JSON
  (\<open>json.loads\<close> raises JSONDecodeError), the function ends by \<open>sys.exit\<close> with the
  message that the server response could not be read: it returns no data, nothing is
  printed on standard output, and the exit status is 1.
\<close>

theorem C7_malformed_body_exits:
  assumes "read_user_cli_args (parse_options w) (argv w) = Inr city"
    and "build_weather_query (secrets_ini w) city = Inr url"
    and "urlopen w url = Inr body"
    and "json_loads w body = Inl JSONDecodeError"
  shows "get_weather_data (urlopen w) (json_loads w) url
           = Inl (SystemExit ''Couldn't read the server response.'')
         \<and> main w = \<lparr>stdout = [], requests = [url],
                      ending = Some (SystemExit ''Couldn't read the server response.'')\<rparr>
         \<and> exit_status (ending (main w)) = 1"
  using assms by (simp add: get_weather_data_def main_def exit_status_def)

text \<open>C7, amended, at a run for Paris whose answer is an HTML page in ASCII.\<close>

theorem C7_malformed_body_exits_witness:
  "read_user_cli_args (parse_options world_not_json) (argv world_not_json) = Inr [''Paris'']
   \<and> build_weather_query (secrets_ini world_not_json) [''Paris'']
       = Inr ''http://api.weatherapi.com/v1/current.json?key=abc123&q=Paris''
   \<and> urlopen world_not_json ''http://api.weatherapi.com/v1/current.json?key=abc123&q=Paris''
       = Inr ''<html>''
   \<and> json_loads world_not_json ''<html>'' = Inl JSONDecodeError
   \<and> main world_not_json
       = \<lparr>stdout = [],
          requests = [''http://api.weatherapi.com/v1/current.json?key=abc123&q=Paris''],
          ending = Some (SystemExit ''Couldn't read the server response.'')\<rparr>
   \<and> exit_status (ending (main world_not_json)) = 1"
proof -
  have a: "read_user_cli_args (parse_options world_not_json) (argv world_not_json)
             = Inr [''Paris'']"
    by (simp add: world_not_json_def read_user_cli_args_def option_like_def)
  have b: "build_weather_query (secrets_ini world_not_json) [''Paris'']
             = Inr ''http://api.weatherapi.com/v1/current.json?key=abc123&q=Paris''"
    by (simp add: world_not_json_def build_weather_query_def get_api_key_def config_read_def
        secrets_with_key_def BASE_WEATHER_API_URL_def)
  have c: "urlopen world_not_json
             ''http://api.weatherapi.com/v1/current.json?key=abc123&q=Paris'' = Inr ''<html>''"
    by (simp add: world_not_json_def urlopen_ok_def)
  have d: "json_loads world_not_json ''<html>'' = Inl JSONDecodeError"
    by (simp add: world_not_json_def loads_not_json_def)
  from C7_malformed_body_exits [OF a b c d] a b c d show ?thesis
    by (simp add: exit_status_def)
qed

section \<open>The whole run\<close>

text \<open>
  C8, as stated: a missing configuration file ends the run by a clear message of a
  configuration error. It fails: with no file the run ends by an uncaught KeyError, not
  by a message of the program.
\<close>

theorem C8_no_file_counterexample:
  "ending (main world_no_file) = Some (KeyError ''weatherapi'')
   \<and> \<not> clean_termination (ending (main world_no_file))"
  by (simp add: main_def world_no_file_def read_user_cli_args_def option_like_def
      build_weather_query_def get_api_key_def config_read_def clean_termination_def
      clean_exit_def)

text \<open>
  C8, amended. When the command line is accepted (it gives the city tokens) and the
  configuration file is missing, or has no section \<open>weatherapi\<close>, or has that section
  but the key \<open>api_key\<close> neither in it nor in \<open>[DEFAULT]\<close>, the run ends by an uncaught
  KeyError naming the missing section or key, with exit status 1, before any network call
  is made and with nothing printed on standard output.
\<close>

theorem C8_missing_config_ends_before_request:
  assumes "read_user_cli_args (parse_options w) (argv w) = Inr city"
    and "secrets_ini w = NoFile
         \<or> (\<exists>defaults sections. secrets_ini w = IniFile defaults sections
               \<and> (map_of sections ''weatherapi'' = None
                  \<or> (\<exists>section. map_of sections ''weatherapi'' = Some section
                        \<and> map_of section ''api_key'' = None
                        \<and> map_of defaults ''api_key'' = None)))"
  shows "(ending (main w) = Some (KeyError ''weatherapi'')
          \<or> ending (main w) = Some (KeyError ''api_key''))
         \<and> requests (main w) = [] \<and> stdout (main w) = []
         \<and> exit_status (ending (main w)) = 1"
proof -
  from assms(2) have "get_api_key (secrets_ini w) = Inl (KeyError ''weatherapi'')
                    \<or> get_api_key (secrets_ini w) = Inl (KeyError ''api_key'')"
    by (auto simp: get_api_key_def config_read_def map_add_def)
  with assms(1) show ?thesis
    by (auto simp: main_def build_weather_query_def exit_status_def)
qed

text \<open>
  C8, amended, at a file whose section \<open>weatherapi\<close> lacks the key and whose
  \<open>[DEFAULT]\<close> section lacks it too.
\<close>

theorem C8_missing_config_ends_before_request_witness:
  "read_user_cli_args (parse_options world_no_key) (argv world_no_key) = Inr [''Paris'']
   \<and> secrets_ini world_no_key
       = IniFile [(''timeout'', Inr ''5'')] [(''weatherapi'', [(''api_kee'', Inr ''abc123'')])]
   \<and> map_of [(''weatherapi'', [(''api_kee'', Inr ''abc123'')])] ''weatherapi''
       = Some [(''api_kee'', Inr ''abc123'' :: exn + string)]
   \<and> map_of [(''api_kee'', Inr ''abc123'' :: exn + string)] ''api_key'' = None
   \<and> map_of [(''timeout'', Inr ''5'' :: exn + string)] ''api_key'' = None
   \<and> ending (main world_no_key) = Some (KeyError ''api_key'')
   \<and> requests (main world_no_key) = [] \<and> stdout (main world_no_key) = []
   \<and> exit_status (ending (main world_no_key)) = 1"
proof -
  have a: "read_user_cli_args (parse_options world_no_key) (argv world_no_key)
             = Inr [''Paris'']"
    by (simp add: world_no_key_def read_user_cli_args_def option_like_def)
  have s: "secrets_ini world_no_key
             = IniFile [(''timeout'', Inr ''5'')]
                       [(''weatherapi'', [(''api_kee'', Inr ''abc123'')])]"
    by (simp add: world_no_key_def secrets_without_key_def)
  have m1: "map_of [(''weatherapi'', [(''api_kee'', Inr ''abc123'')])] ''weatherapi''
              = Some [(''api_kee'', Inr ''abc123'' :: exn + string)]"
    by simp
  have m2: "map_of [(''api_kee'', Inr ''abc123'' :: exn + string)] ''api_key'' = None"
    by simp
  have m3: "map_of [(''timeout'', Inr ''5'' :: exn + string)] ''api_key'' = None"
    by simp
  have b: "secrets_ini world_no_key = NoFile
         \<or> (\<exists>defaults sections. secrets_ini world_no_key = IniFile defaults sections
               \<and> (map_of sections ''weatherapi'' = None
                  \<or> (\<exists>section. map_of sections ''weatherapi'' = Some section
                        \<and> map_of section ''api_key'' = None
                        \<and> map_of defaults ''api_key'' = None)))"
    using s m1 m2 m3 by blast
  have k: "ending (main world_no_key) \<noteq> Some (KeyError ''weatherapi'')"
    by (simp add: main_def world_no_key_def secrets_without_key_def read_user_cli_args_def
        option_like_def build_weather_query_def get_api_key_def config_read_def)
  from C8_missing_config_ends_before_request [OF a b] a s m1 m2 m3 k show ?thesis
    by (simp add: exit_status_def)
qed

text \<open>
  C9. The claim says a run prints the complete line or nothing. On the code, the answer
  for Paris with the condition code 1000 leaves the city segment alone on standard
  output: the classifier raises after the first segment has been printed.
\<close>

theorem C9_partial_line_on_sunny:
  "main world_paris
     = \<lparr>stdout = [Style REVERSE, Text ''Paris (Paris)'', Style RESET],
        requests = [''http://api.weatherapi.com/v1/current.json?key=abc123&q=Paris''],
        ending = Some TypeError\<rparr>"
  by (simp add: main_def world_paris_def read_user_cli_args_def option_like_def
      build_weather_query_def
      get_api_key_def config_read_def secrets_with_key_def BASE_WEATHER_API_URL_def
      get_weather_data_def urlopen_ok_def loads_paris_def paris_response_def
      display_weather_info_def read_fields_def py_getitem_def py_str_def
      select_weather_display_params_def elif_in_def THUNDERSTORM_def DRIZZLE_def
      RAIN_def SNOW_def ATMOSPHERE_def SUNNY_def)

end
